theory Spec2Isabelle
  imports Complex_Main "HOL-Library.Word"
begin

section \<open>Machine values\<close>

text \<open>
  Go's \<open>int32\<close> is a 32-bit word: \<open>+\<close> wraps around, \<open>sint\<close> reads the two's
  complement value, \<open><s\<close> is the signed comparison. Bin indices have Go's type \<open>int\<close>;
  the store and the sketch only compare them and use them as map keys, so they are
  modelled as mathematical integers.
\<close>

type_synonym int32 = "32 word"

text \<open>
  A \<open>float64\<close> is a NaN, an infinity or a finite number. Comparisons are exact and
  follow IEEE 754: every comparison with a NaN is false. Signed zeros are not
  distinguished (they compare equal).
\<close>

datatype float64 = NaN | NInf | Fin real | PInf

fun flt :: "float64 \<Rightarrow> float64 \<Rightarrow> bool" where
  "flt NaN _ = False"
| "flt _ NaN = False"
| "flt PInf _ = False"
| "flt _ NInf = False"
| "flt NInf _ = True"
| "flt (Fin x) PInf = True"
| "flt (Fin x) (Fin y) = (x < y)"

definition fgt :: "float64 \<Rightarrow> float64 \<Rightarrow> bool" where
  "fgt a b = flt b a"

fun feq :: "float64 \<Rightarrow> float64 \<Rightarrow> bool" where
  "feq NaN _ = False"
| "feq _ NaN = False"
| "feq (Fin x) (Fin y) = (x = y)"
| "feq a b = (a = b)"

definition fle :: "float64 \<Rightarrow> float64 \<Rightarrow> bool" where
  "fle a b = (flt a b \<or> feq a b)"

definition fge :: "float64 \<Rightarrow> float64 \<Rightarrow> bool" where
  "fge a b = fle b a"

text \<open>The conversion \<open>float64(n)\<close> of an \<open>int32\<close> is exact.\<close>

definition float64_of_int32 :: "int32 \<Rightarrow> float64" where
  "float64_of_int32 n = Fin (real_of_int (sint n))"

text \<open>
  Arithmetic rounds: the result of an operation on finite operands is the exact result
  passed through the rounding function \<open>rnd\<close> (round to nearest even in Go, which may
  overflow to an infinity); the theorems below hold for every \<open>rnd\<close>.
\<close>

fun fmul :: "(real \<Rightarrow> float64) \<Rightarrow> float64 \<Rightarrow> float64 \<Rightarrow> float64" where
  "fmul rnd NaN _ = NaN"
| "fmul rnd _ NaN = NaN"
| "fmul rnd (Fin x) (Fin y) = rnd (x * y)"
| "fmul rnd (Fin x) PInf = (if x = 0 then NaN else if 0 < x then PInf else NInf)"
| "fmul rnd (Fin x) NInf = (if x = 0 then NaN else if 0 < x then NInf else PInf)"
| "fmul rnd PInf (Fin y) = (if y = 0 then NaN else if 0 < y then PInf else NInf)"
| "fmul rnd NInf (Fin y) = (if y = 0 then NaN else if 0 < y then NInf else PInf)"
| "fmul rnd PInf PInf = PInf"
| "fmul rnd PInf NInf = NInf"
| "fmul rnd NInf PInf = NInf"
| "fmul rnd NInf NInf = PInf"

fun fsub :: "(real \<Rightarrow> float64) \<Rightarrow> float64 \<Rightarrow> float64 \<Rightarrow> float64" where
  "fsub rnd NaN _ = NaN"
| "fsub rnd _ NaN = NaN"
| "fsub rnd (Fin x) (Fin y) = rnd (x - y)"
| "fsub rnd (Fin x) PInf = NInf"
| "fsub rnd (Fin x) NInf = PInf"
| "fsub rnd PInf PInf = NaN"
| "fsub rnd PInf _ = PInf"
| "fsub rnd NInf NInf = NaN"
| "fsub rnd NInf _ = NInf"

text \<open>
  A call either panics (a Go runtime fault that unwinds the caller) or returns. A
  returned Go \<open>error\<close> is a value: \<open>None\<close> is \<open>nil\<close>.
\<close>

datatype 'a exec = Panic | Returns 'a

datatype error =
    NegativeCount
  | OutOfRange
  | InvalidQuantile
  | NoSuchElement
  | DifferentMappings

section \<open>The sparse store (store/bin.go)\<close>

datatype Bin = Bin (Bin_Index: int) (Bin_Count: int32)

definition NewBin :: "int \<Rightarrow> int32 \<Rightarrow> error + Bin" where
  "NewBin index c = (if c <s 0 then Inl NegativeCount else Inr (Bin index c))"

text \<open>
  A Go map value is either \<open>nil\<close> (\<open>None\<close>) or an allocated finite map. Reading a
  missing key, or any key of a nil map, gives the zero value; \<open>len\<close> of a nil map is 0
  and ranging over it visits nothing; assigning to an entry of a nil map panics.
\<close>

type_synonym gomap = "(int \<rightharpoonup> int32) option"

definition map_get :: "gomap \<Rightarrow> int \<Rightarrow> int32" where
  "map_get b k = (case b of None \<Rightarrow> 0 | Some m \<Rightarrow> (case m k of None \<Rightarrow> 0 | Some v \<Rightarrow> v))"

definition map_len :: "gomap \<Rightarrow> nat" where
  "map_len b = (case b of None \<Rightarrow> 0 | Some m \<Rightarrow> card (dom m))"

text \<open>
  The keys visited by \<open>range\<close>. Go leaves the order unspecified; the model lists them
  in ascending order. Every use below either sorts the keys or touches each key's entry
  once, so the order does not show.
\<close>

definition map_keys :: "gomap \<Rightarrow> int list" where
  "map_keys b = (case b of None \<Rightarrow> [] | Some m \<Rightarrow> sorted_list_of_set (dom m))"

record SparseStore =
  bins :: gomap
  count :: int32
  minIndex :: int
  maxIndex :: int

text \<open>
  \<open>NewSparseStore\<close> sets only \<open>minIndex\<close> and \<open>maxIndex\<close>: \<open>bins\<close> keeps its zero
  value, the nil map, and \<open>count\<close> is 0.
\<close>

definition NewSparseStore :: SparseStore where
  "NewSparseStore = \<lparr>bins = None, count = 0, minIndex = 2147483647, maxIndex = - 2147483648\<rparr>"

text \<open>
  \<open>SparseStore.AddWithCount\<close> has no result value. It returns early on a zero count,
  then raises \<open>maxIndex\<close> and lowers \<open>minIndex\<close>, then executes
  \<open>s.bins[index] += count\<close>, which panics on a nil map, then adds to \<open>count\<close>.
\<close>

definition SparseStore_AddWithCount :: "int \<Rightarrow> int32 \<Rightarrow> SparseStore \<Rightarrow> SparseStore exec" where
  "SparseStore_AddWithCount index c s =
    (if c = 0 then Returns s
     else
       let s1 = (if index > maxIndex s then s\<lparr>maxIndex := index\<rparr> else s);
           s2 = (if index < minIndex s1 then s1\<lparr>minIndex := index\<rparr> else s1)
       in (case bins s2 of
             None \<Rightarrow> Panic
           | Some m \<Rightarrow>
               Returns (s2\<lparr>bins := Some (m(index \<mapsto> map_get (bins s2) index + c)),
                           count := count s2 + c\<rparr>)))"

definition SparseStore_Add :: "int \<Rightarrow> SparseStore \<Rightarrow> SparseStore exec" where
  "SparseStore_Add index s = SparseStore_AddWithCount index 1 s"

definition SparseStore_AddBin :: "Bin \<Rightarrow> SparseStore \<Rightarrow> SparseStore exec" where
  "SparseStore_AddBin bin s =
    (let index = Bin_Index bin; c = Bin_Count bin
     in if c = 0 then Returns s else SparseStore_AddWithCount index c s)"

text \<open>
  \<open>Copy\<close> allocates a map with \<open>make\<close> and assigns every entry of \<open>s.bins\<close> to it: the
  copy's map is allocated (also when the original's is nil) and has the same entries.
\<close>

definition SparseStore_Copy :: "SparseStore \<Rightarrow> SparseStore" where
  "SparseStore_Copy s =
    \<lparr>bins = Some (case bins s of None \<Rightarrow> Map.empty | Some m \<Rightarrow> m),
     count = count s, minIndex = minIndex s, maxIndex = maxIndex s\<rparr>"

definition SparseStore_IsEmpty :: "SparseStore \<Rightarrow> bool" where
  "SparseStore_IsEmpty s = (count s = 0)"

definition SparseStore_TotalCount :: "SparseStore \<Rightarrow> int32" where
  "SparseStore_TotalCount s = count s"

datatype store_error = EmptyStore

definition SparseStore_MaxIndex :: "SparseStore \<Rightarrow> store_error + int" where
  "SparseStore_MaxIndex s = (if SparseStore_IsEmpty s then Inl EmptyStore else Inr (maxIndex s))"

definition SparseStore_MinIndex :: "SparseStore \<Rightarrow> store_error + int" where
  "SparseStore_MinIndex s = (if SparseStore_IsEmpty s then Inl EmptyStore else Inr (minIndex s))"

text \<open>
  \<open>KeyAtRank\<close> builds \<open>keys\<close> with \<open>make([]int, len(s.bins))\<close>, a slice that already
  holds \<open>len(s.bins)\<close> zeros, and appends every key of the map to it. It sorts the slice
  and walks it, adding \<open>s.bins[k]\<close> to the \<open>int32\<close> accumulator \<open>n\<close> at every element,
  and returns the first \<open>k\<close> at which \<open>float64(n) > rank\<close>; when the walk ends it
  returns \<open>maxIndex\<close>.
\<close>

fun KeyAtRank_loop :: "gomap \<Rightarrow> float64 \<Rightarrow> int32 \<Rightarrow> int list \<Rightarrow> int option" where
  "KeyAtRank_loop b rank n [] = None"
| "KeyAtRank_loop b rank n (k # ks) =
    (let n' = n + map_get b k
     in if fgt (float64_of_int32 n') rank then Some k else KeyAtRank_loop b rank n' ks)"

definition KeyAtRank_keys :: "SparseStore \<Rightarrow> int list" where
  "KeyAtRank_keys s = sort (replicate (map_len (bins s)) 0 @ map_keys (bins s))"

definition SparseStore_KeyAtRank :: "SparseStore \<Rightarrow> float64 \<Rightarrow> int" where
  "SparseStore_KeyAtRank s rank =
    (case KeyAtRank_loop (bins s) rank 0 (KeyAtRank_keys s) of
       Some k \<Rightarrow> k
     | None \<Rightarrow> maxIndex s)"

text \<open>
  \<open>MergeWith\<close>: the only store type of the repository at hand is \<open>SparseStore\<close>, so the
  type assertion on \<open>other\<close> succeeds. The loop \<open>for k, v := range o.bins\<close> executes
  \<open>s.bins[k] += v\<close> once per key of \<open>o.bins\<close>; the first execution panics when
  \<open>s.bins\<close> is nil.
\<close>

fun MergeWith_loop :: "gomap \<Rightarrow> gomap \<Rightarrow> int list \<Rightarrow> gomap exec" where
  "MergeWith_loop ob b [] = Returns b"
| "MergeWith_loop ob b (k # ks) =
    (case b of
       None \<Rightarrow> Panic
     | Some m \<Rightarrow> MergeWith_loop ob (Some (m(k \<mapsto> map_get b k + map_get ob k))) ks)"

definition SparseStore_MergeWith :: "SparseStore \<Rightarrow> SparseStore \<Rightarrow> SparseStore exec" where
  "SparseStore_MergeWith s other =
    (if SparseStore_IsEmpty other then Returns s
     else
       let s1 = (if minIndex other < minIndex s then s\<lparr>minIndex := minIndex other\<rparr> else s);
           s2 = (if maxIndex other > maxIndex s1 then s1\<lparr>maxIndex := maxIndex other\<rparr> else s1)
       in (case MergeWith_loop (bins other) (bins s2) (map_keys (bins other)) of
             Panic \<Rightarrow> Panic
           | Returns b \<Rightarrow> Returns (s2\<lparr>bins := b, count := count s2 + count other\<rparr>)))"

section \<open>The sketch (ddsketch.go)\<close>

text \<open>
  The sketch holds its mapping through the interface \<open>IndexMapping\<close>. The interface is
  modelled by its method table over an arbitrary type \<open>'m\<close> of mapping objects; the
  sketch code calls the mapping only through these methods.
\<close>

record 'm IndexMapping_iface =
  Equals :: "'m \<Rightarrow> 'm \<Rightarrow> bool"
  Index :: "'m \<Rightarrow> float64 \<Rightarrow> int"
  Value :: "'m \<Rightarrow> int \<Rightarrow> float64"
  RelativeAccuracy :: "'m \<Rightarrow> float64"
  MinIndexableValue :: "'m \<Rightarrow> float64"
  MaxIndexableValue :: "'m \<Rightarrow> float64"

text \<open>The store of a sketch is a \<open>SparseStore\<close>, the store type at hand.\<close>

record 'm DDSketch =
  IndexMapping :: 'm
  store :: SparseStore
  zeroCount :: int32

definition NewDDSketch :: "'m \<Rightarrow> SparseStore \<Rightarrow> 'm DDSketch" where
  "NewDDSketch indexMapping st = \<lparr>IndexMapping = indexMapping, store = st, zeroCount = 0\<rparr>"

text \<open>
  The mutating methods return the error value together with the sketch as the call
  leaves it, so that "unchanged on error" is a statement about the result.
\<close>

definition DDSketch_AddWithCount ::
  "'m IndexMapping_iface \<Rightarrow> 'm DDSketch \<Rightarrow> float64 \<Rightarrow> int32 \<Rightarrow> (error option \<times> 'm DDSketch) exec" where
  "DDSketch_AddWithCount I s v c =
    (if flt v (Fin 0) \<or> fgt v (MaxIndexableValue I (IndexMapping s)) then Returns (Some OutOfRange, s)
     else if c <s 0 then Returns (Some NegativeCount, s)
     else if fgt v (MinIndexableValue I (IndexMapping s)) then
       (case SparseStore_AddWithCount (Index I (IndexMapping s) v) c (store s) of
          Panic \<Rightarrow> Panic
        | Returns st \<Rightarrow> Returns (None, s\<lparr>store := st\<rparr>))
     else Returns (None, s\<lparr>zeroCount := zeroCount s + c\<rparr>))"

definition DDSketch_Add ::
  "'m IndexMapping_iface \<Rightarrow> 'm DDSketch \<Rightarrow> float64 \<Rightarrow> (error option \<times> 'm DDSketch) exec" where
  "DDSketch_Add I s v = DDSketch_AddWithCount I s v 1"

text \<open>
  \<open>Copy\<close> builds a new \<open>DDSketch\<close> from the mapping and a copy of the store; the
  composite literal does not mention \<open>zeroCount\<close>, which therefore is 0 in the copy.
\<close>

definition DDSketch_Copy :: "'m DDSketch \<Rightarrow> 'm DDSketch" where
  "DDSketch_Copy s = \<lparr>IndexMapping = IndexMapping s, store = SparseStore_Copy (store s), zeroCount = 0\<rparr>"

definition GetCount :: "'m DDSketch \<Rightarrow> int32" where
  "GetCount s = zeroCount s + SparseStore_TotalCount (store s)"

definition DDSketch_IsEmpty :: "'m DDSketch \<Rightarrow> bool" where
  "DDSketch_IsEmpty s = (zeroCount s = 0 \<and> SparseStore_IsEmpty (store s))"

definition GetValueAtQuantile ::
  "(real \<Rightarrow> float64) \<Rightarrow> 'm IndexMapping_iface \<Rightarrow> 'm DDSketch \<Rightarrow> float64 \<Rightarrow> float64 \<times> error option" where
  "GetValueAtQuantile rnd I s quantile =
    (if flt quantile (Fin 0) \<or> fgt quantile (Fin 1) then (NaN, Some InvalidQuantile)
     else
       let cnt = GetCount s
       in if cnt = 0 then (NaN, Some NoSuchElement)
          else
            let rank = fmul rnd quantile (float64_of_int32 (cnt - 1))
            in if flt rank (float64_of_int32 (zeroCount s)) then (Fin 0, None)
               else (Value I (IndexMapping s)
                       (SparseStore_KeyAtRank (store s) (fsub rnd rank (float64_of_int32 (zeroCount s)))),
                     None))"

definition DDSketch_MergeWith ::
  "'m IndexMapping_iface \<Rightarrow> 'm DDSketch \<Rightarrow> 'm DDSketch \<Rightarrow> (error option \<times> 'm DDSketch) exec" where
  "DDSketch_MergeWith I s other =
    (if \<not> Equals I (IndexMapping s) (IndexMapping other) then Returns (Some DifferentMappings, s)
     else
       (case SparseStore_MergeWith (store s) (store other) of
          Panic \<Rightarrow> Panic
        | Returns st \<Rightarrow> Returns (None, s\<lparr>store := st, zeroCount := zeroCount s + zeroCount other\<rparr>)))"

text \<open>
  A mapping used to run the sketch on concrete inputs: it has a single mapping object,
  indexes a finite value by its floor, and tracks values in \<open>(1/2, 1000]\<close>.
\<close>

definition example_mapping :: "unit IndexMapping_iface" where
  "example_mapping =
    \<lparr>Equals = (\<lambda>_ _. True),
     Index = (\<lambda>_ v. case v of Fin x \<Rightarrow> \<lfloor>x\<rfloor> | _ \<Rightarrow> 0),
     Value = (\<lambda>_ i. Fin (real_of_int i)),
     RelativeAccuracy = (\<lambda>_. Fin (1 / 2)),
     MinIndexableValue = (\<lambda>_. Fin (1 / 2)),
     MaxIndexableValue = (\<lambda>_. Fin 1000)\<rparr>"

section \<open>Reachable sketches\<close>

text \<open>
  An \<open>int32\<close> addition does not overflow when the wrapped sum is the exact sum.
\<close>

definition no_overflow :: "int32 \<Rightarrow> int32 \<Rightarrow> bool" where
  "no_overflow a b = (sint (a + b) = sint a + sint b)"

text \<open>
  The sketches reachable from a new one. A new sketch is \<open>NewDDSketch\<close> applied to a
  mapping and a new store, which is \<open>NewSparseStore()\<close> or its \<open>Copy()\<close>. A step is a
  call of \<open>Add\<close>, \<open>AddWithCount\<close> or \<open>MergeWith\<close> (with another reachable sketch)
  that returns a nil error and whose addition to the sketch's count does not overflow.
\<close>

inductive reachable :: "'m IndexMapping_iface \<Rightarrow> 'm DDSketch \<Rightarrow> bool" for I where
  reachable_new: "reachable I (NewDDSketch m NewSparseStore)"
| reachable_new_copy: "reachable I (NewDDSketch m (SparseStore_Copy NewSparseStore))"
| reachable_Add:
    "reachable I s \<Longrightarrow> DDSketch_Add I s v = Returns (None, s') \<Longrightarrow>
     no_overflow (GetCount s) 1 \<Longrightarrow> reachable I s'"
| reachable_AddWithCount:
    "reachable I s \<Longrightarrow> DDSketch_AddWithCount I s v c = Returns (None, s') \<Longrightarrow>
     no_overflow (GetCount s) c \<Longrightarrow> reachable I s'"
| reachable_MergeWith:
    "reachable I s \<Longrightarrow> reachable I other \<Longrightarrow>
     DDSketch_MergeWith I s other = Returns (None, s') \<Longrightarrow>
     no_overflow (GetCount s) (GetCount other) \<Longrightarrow> reachable I s'"

text \<open>
  The invariant of the reachable sketches: both counters are non-negative and their
  sum has not wrapped.
\<close>

definition counts_ok :: "'m DDSketch \<Rightarrow> bool" where
  "counts_ok s \<longleftrightarrow>
     0 \<le> sint (zeroCount s) \<and> 0 \<le> sint (count (store s))
     \<and> sint (GetCount s) = sint (zeroCount s) + sint (count (store s))"

section \<open>What the rank query is meant to return\<close>

text \<open>
  The cumulative count of all bins with index at most \<open>k\<close>, as an exact integer.
\<close>

definition cumulative_count :: "SparseStore \<Rightarrow> int \<Rightarrow> int" where
  "cumulative_count s k =
    sum_list (map (\<lambda>j. sint (map_get (bins s) j)) (filter (\<lambda>j. j \<le> k) (map_keys (bins s))))"

section \<open>Facts about the machine values\<close>

lemma flt_NaN_right [simp]: "flt a NaN = False"
  by (cases a) simp_all

lemma fgt_NaN [simp]: "fgt NaN a = False" "fgt a NaN = False"
  by (simp_all add: fgt_def)

lemma fle_NaN [simp]: "fle NaN a = False" "fle a NaN = False"
  by (cases a; simp add: fle_def)+

lemma sless_zero_iff: "(c :: int32) <s 0 \<longleftrightarrow> sint c < 0"
  by (simp add: word_sless_alt)

lemma sint_add_small:
  fixes a b :: int32
  assumes "0 \<le> sint a" "0 \<le> sint b" "sint a + sint b < 2147483648"
  shows "sint (a + b) = sint a + sint b"
proof -
  have "sint (a + b) = signed_take_bit 31 (sint a + sint b)"
    by (simp add: sint_word_ariths)
  also have "\<dots> = sint a + sint b"
    using assms by (intro signed_take_bit_int_eq_self) simp_all
  finally show ?thesis .
qed

lemma sint_bound32: "sint (a :: int32) < 2147483648"
  using sint_lt [of a] by simp

section \<open>Store insertion\<close>

text \<open>
  C8. \<open>Add\<close> and \<open>AddWithCount\<close> with a count other than zero on the store freshly
  returned by \<open>NewSparseStore\<close> do not yield a store: the bins map is nil and the
  assignment to its entry panics.
\<close>

theorem NewSparseStore_AddWithCount_panics:
  "SparseStore_AddWithCount 0 1 NewSparseStore = Panic
   \<and> SparseStore_Add 7 NewSparseStore = Panic
   \<and> SparseStore_AddWithCount (- 3) 5 NewSparseStore = Panic"
  by (simp add: SparseStore_AddWithCount_def SparseStore_Add_def NewSparseStore_def Let_def)

text \<open>
  The same holds at every index and every count other than zero.
\<close>

lemma NewSparseStore_AddWithCount_always_panics:
  "n \<noteq> 0 \<Longrightarrow> SparseStore_AddWithCount i n NewSparseStore = Panic"
  by (simp add: SparseStore_AddWithCount_def NewSparseStore_def Let_def)

text \<open>
  C6, as the code has it. The store-level \<open>AddWithCount\<close> has no error result. With a
  zero count it leaves the store as it is. With any other count, negative ones included,
  and an allocated bins map, it adds the count to the bin at the index (wrapping in
  \<open>int32\<close>), lowers \<open>minIndex\<close> and raises \<open>maxIndex\<close> to the index where needed, and
  adds the count to the total.
\<close>

theorem SparseStore_AddWithCount_effect:
  "SparseStore_AddWithCount i 0 s = Returns s
   \<and> (n \<noteq> 0 \<and> bins s = Some m \<longrightarrow>
        SparseStore_AddWithCount i n s =
          Returns (s\<lparr>bins := Some (m(i \<mapsto> map_get (Some m) i + n)),
                      count := count s + n,
                      minIndex := min i (minIndex s),
                      maxIndex := max i (maxIndex s)\<rparr>))"
  by (simp add: SparseStore_AddWithCount_def Let_def min_def max_def)

theorem SparseStore_AddWithCount_effect_witness:
  "SparseStore_AddWithCount 4 0 (SparseStore_Copy NewSparseStore) = Returns (SparseStore_Copy NewSparseStore)
   \<and> SparseStore_AddWithCount 4 3 (SparseStore_Copy NewSparseStore) =
       Returns \<lparr>bins = Some [4 \<mapsto> 3], count = 3, minIndex = 4, maxIndex = 4\<rparr>"
  using SparseStore_AddWithCount_effect [of 4 "SparseStore_Copy NewSparseStore" 3 Map.empty]
  by (simp add: SparseStore_Copy_def NewSparseStore_def map_get_def)

text \<open>
  C6 as stated fails: a negative count is not rejected. On an allocated empty store,
  \<open>AddWithCount(4, -1)\<close> returns normally and leaves a bin and a total of \<open>-1\<close>.
\<close>

theorem SparseStore_AddWithCount_negative_accepted:
  "SparseStore_AddWithCount 4 (- 1) (SparseStore_Copy NewSparseStore) =
     Returns \<lparr>bins = Some [4 \<mapsto> - 1], count = - 1, minIndex = 4, maxIndex = 4\<rparr>"
  by (simp add: SparseStore_AddWithCount_def SparseStore_Copy_def NewSparseStore_def
      Let_def map_get_def)

section \<open>The rank query\<close>

text \<open>
  C1. The store below is reached from \<open>NewSparseStore().Copy()\<close> by \<open>Add(0)\<close> and
  \<open>Add(5)\<close>: one value in bin 0, one in bin 5, total count 2. The cumulative count up to
  index 0 is 1, which does not exceed rank 1, and up to index 5 it is 2; yet
  \<open>KeyAtRank(1)\<close> returns 0, not 5. Rank 2 is at the total count, and \<open>KeyAtRank(2)\<close>
  returns 0 as well, not \<open>maxIndex\<close>, which is 5. The slice of keys starts with two zeros
  before the keys are appended, so bin 0 is added to the running count three times.
\<close>

theorem SparseStore_KeyAtRank_counts_bin_zero_again:
  "SparseStore_Add 0 (SparseStore_Copy NewSparseStore) =
     Returns \<lparr>bins = Some [0 \<mapsto> 1], count = 1, minIndex = 0, maxIndex = 0\<rparr>
   \<and> SparseStore_Add 5 \<lparr>bins = Some [0 \<mapsto> 1], count = 1, minIndex = 0, maxIndex = 0\<rparr> =
     Returns \<lparr>bins = Some [0 \<mapsto> 1, 5 \<mapsto> 1], count = 2, minIndex = 0, maxIndex = 5\<rparr>
   \<and> KeyAtRank_keys \<lparr>bins = Some [0 \<mapsto> 1, 5 \<mapsto> 1], count = 2, minIndex = 0, maxIndex = 5\<rparr>
       = [0, 0, 0, 5]
   \<and> cumulative_count \<lparr>bins = Some [0 \<mapsto> 1, 5 \<mapsto> 1], count = 2, minIndex = 0, maxIndex = 5\<rparr> 0 = 1
   \<and> cumulative_count \<lparr>bins = Some [0 \<mapsto> 1, 5 \<mapsto> 1], count = 2, minIndex = 0, maxIndex = 5\<rparr> 5 = 2
   \<and> SparseStore_KeyAtRank
        \<lparr>bins = Some [0 \<mapsto> 1, 5 \<mapsto> 1], count = 2, minIndex = 0, maxIndex = 5\<rparr> (Fin 1) = 0
   \<and> SparseStore_KeyAtRank
        \<lparr>bins = Some [0 \<mapsto> 1, 5 \<mapsto> 1], count = 2, minIndex = 0, maxIndex = 5\<rparr> (Fin 2) = 0"
  by (simp add: SparseStore_Add_def SparseStore_AddWithCount_def SparseStore_Copy_def
      NewSparseStore_def Let_def map_get_def map_len_def map_keys_def KeyAtRank_keys_def
      cumulative_count_def SparseStore_KeyAtRank_def fgt_def float64_of_int32_def)

text \<open>
  Where the store has no bin at index 0, the extra zeros in the slice add nothing, and
  the query does return what it is meant to: for a non-negative rank, non-negative bin
  counts and a total below \<open>2 ^ 31\<close>, the result is the first key, in ascending order,
  whose cumulative count exceeds the rank, and \<open>maxIndex\<close> when there is none.
\<close>

lemma KeyAtRank_loop_skip_zero:
  assumes "map_get b 0 = 0" "\<not> fgt (float64_of_int32 n) rank"
  shows "KeyAtRank_loop b rank n ks = KeyAtRank_loop b rank n (filter (\<lambda>k. k \<noteq> 0) ks)"
  using assms(2)
proof (induction ks arbitrary: n)
  case Nil
  show ?case by simp
next
  case (Cons k ks)
  show ?case
  proof (cases "k = 0")
    case True
    then show ?thesis using Cons assms(1) by (simp add: Let_def)
  next
    case False
    then show ?thesis using Cons by (simp add: Let_def)
  qed
qed

lemma KeyAtRank_keys_without_zero:
  assumes "0 \<notin> set (map_keys (bins s))"
  shows "filter (\<lambda>k. k \<noteq> 0) (KeyAtRank_keys s) = map_keys (bins s)"
proof -
  have srt: "sorted (map_keys (bins s))"
    by (cases "bins s") (simp_all add: map_keys_def)
  have "filter (\<lambda>k. k \<noteq> 0) (KeyAtRank_keys s)
        = sort (filter (\<lambda>k. k \<noteq> 0) (replicate (map_len (bins s)) 0 @ map_keys (bins s)))"
    by (simp add: KeyAtRank_keys_def filter_sort)
  also have "\<dots> = sort (filter (\<lambda>k. k \<noteq> 0) (map_keys (bins s)))"
    by simp
  also have "filter (\<lambda>k. k \<noteq> 0) (map_keys (bins s)) = map_keys (bins s)"
    using assms by (intro filter_True) auto
  also have "sort (map_keys (bins s)) = map_keys (bins s)"
    using srt by (rule sorted_sort_id)
  finally show ?thesis .
qed

lemma map_keys_sorted_distinct: "sorted (map_keys b) \<and> distinct (map_keys b)"
  by (cases b) (simp_all add: map_keys_def)

lemma KeyAtRank_loop_find:
  assumes "sorted ks" "distinct ks"
    and "\<forall>k \<in> set ks. 0 \<le> sint (map_get b k)"
    and "0 \<le> sint n"
    and "sint n + sum_list (map (\<lambda>k. sint (map_get b k)) ks) < 2147483648"
  shows "KeyAtRank_loop b (Fin r) n ks =
         find (\<lambda>k. r < real_of_int (sint n + sum_list (map (\<lambda>j. sint (map_get b j)) (filter (\<lambda>j. j \<le> k) ks)))) ks"
  using assms
proof (induction ks arbitrary: n)
  case Nil
  show ?case by simp
next
  case (Cons k ks)
  let ?g = "\<lambda>j. sint (map_get b j)"
  have gk: "0 \<le> ?g k" using Cons.prems(3) by simp
  have gs: "0 \<le> sum_list (map ?g ks)"
    using Cons.prems(3) by (intro sum_list_nonneg) auto
  have n': "sint (n + map_get b k) = sint n + ?g k"
    using Cons.prems(4,5) gk gs by (intro sint_add_small) simp_all
  have above: "\<forall>j \<in> set ks. k < j"
    using Cons.prems(1,2) by (auto simp: less_le)
  then have fk: "filter (\<lambda>j. j \<le> k) ks = []"
    by (auto simp: filter_empty_conv)
  let ?P = "\<lambda>n ks k'. r < real_of_int (sint n + sum_list (map ?g (filter (\<lambda>j. j \<le> k') ks)))"
  have IH: "KeyAtRank_loop b (Fin r) (n + map_get b k) ks = find (?P (n + map_get b k) ks) ks"
    using Cons.prems gk n' by (intro Cons.IH) simp_all
  have cong: "find (?P (n + map_get b k) ks) ks = find (?P n (k # ks)) ks"
    using above n' by (intro find_cong) (auto simp: add.assoc)
  have Pk: "?P n (k # ks) k \<longleftrightarrow> r < real_of_int (sint (n + map_get b k))"
    using fk n' by simp
  have "KeyAtRank_loop b (Fin r) n (k # ks) =
      (if r < real_of_int (sint (n + map_get b k)) then Some k
       else KeyAtRank_loop b (Fin r) (n + map_get b k) ks)"
    by (simp add: Let_def fgt_def float64_of_int32_def)
  also have "\<dots> = (if ?P n (k # ks) k then Some k else find (?P n (k # ks)) ks)"
    unfolding Pk IH cong ..
  also have "\<dots> = find (?P n (k # ks)) (k # ks)"
    by (simp only: find.simps)
  finally show ?case .
qed

lemma SparseStore_KeyAtRank_without_bin_zero:
  assumes "0 \<notin> set (map_keys (bins s))" "map_get (bins s) 0 = 0" "0 \<le> r"
    and "\<forall>k \<in> set (map_keys (bins s)). 0 \<le> sint (map_get (bins s) k)"
    and "sum_list (map (\<lambda>k. sint (map_get (bins s) k)) (map_keys (bins s))) < 2147483648"
  shows "SparseStore_KeyAtRank s (Fin r) =
         (case find (\<lambda>k. r < real_of_int (cumulative_count s k)) (map_keys (bins s)) of
            Some k \<Rightarrow> k
          | None \<Rightarrow> maxIndex s)"
proof -
  have "\<not> fgt (float64_of_int32 0) (Fin r)"
    using assms(3) by (simp add: fgt_def float64_of_int32_def)
  then have "KeyAtRank_loop (bins s) (Fin r) 0 (KeyAtRank_keys s)
        = KeyAtRank_loop (bins s) (Fin r) 0 (filter (\<lambda>k. k \<noteq> 0) (KeyAtRank_keys s))"
    using assms(2) by (intro KeyAtRank_loop_skip_zero)
  also have "\<dots> = KeyAtRank_loop (bins s) (Fin r) 0 (map_keys (bins s))"
    using assms(1) by (simp add: KeyAtRank_keys_without_zero)
  also have "\<dots> = find (\<lambda>k. r < real_of_int (cumulative_count s k)) (map_keys (bins s))"
    using map_keys_sorted_distinct [of "bins s"] assms(4,5)
    by (subst KeyAtRank_loop_find) (simp_all add: cumulative_count_def)
  finally show ?thesis by (simp add: SparseStore_KeyAtRank_def)
qed

section \<open>Sketch insertion\<close>

text \<open>
  C9. A NaN value with a non-negative count is accepted: it fails none of the range
  comparisons, and it is not greater than \<open>MinIndexableValue()\<close>, so the call returns
  no error and adds the count to \<open>zeroCount\<close>, leaving the store alone.
\<close>

theorem DDSketch_AddWithCount_NaN:
  "\<not> c <s 0 \<Longrightarrow>
   DDSketch_AddWithCount I s NaN c = Returns (None, s\<lparr>zeroCount := zeroCount s + c\<rparr>)"
  by (simp add: DDSketch_AddWithCount_def)

theorem DDSketch_AddWithCount_NaN_witness:
  "\<not> (5 :: int32) <s 0
   \<and> DDSketch_AddWithCount example_mapping (NewDDSketch () NewSparseStore) NaN 5 =
       Returns (None, \<lparr>IndexMapping = (), store = NewSparseStore, zeroCount = 5\<rparr>)"
proof -
  have h: "\<not> (5 :: int32) <s 0" by (simp add: sless_zero_iff)
  show ?thesis
    using h DDSketch_AddWithCount_NaN [OF h, of example_mapping "NewDDSketch () NewSparseStore"]
    by (simp add: NewDDSketch_def)
qed

lemma SparseStore_AddWithCount_returns:
  "bins st \<noteq> None \<Longrightarrow> \<exists>st'. SparseStore_AddWithCount i c st = Returns st'"
  by (auto simp: SparseStore_AddWithCount_def Let_def)

text \<open>
  C3, as the code has it. \<open>AddWithCount\<close> returns an error exactly when \<open>v < 0\<close>,
  \<open>v > MaxIndexableValue()\<close> or \<open>c < 0\<close>, and then leaves the sketch as it was. When
  it returns no error, it has added \<open>c\<close> to the store at \<open>Index(v)\<close> if
  \<open>v > MinIndexableValue()\<close>, and in every other case, which includes a NaN \<open>v\<close>
  besides \<open>v \<le> MinIndexableValue()\<close>, it has added \<open>c\<close> to \<open>zeroCount\<close>. With an
  allocated bins map in the store the call always returns.
\<close>

theorem DDSketch_AddWithCount_spec:
  "((\<exists>e s'. DDSketch_AddWithCount I s v c = Returns (Some e, s'))
      \<longleftrightarrow> (flt v (Fin 0) \<or> fgt v (MaxIndexableValue I (IndexMapping s)) \<or> c <s 0))
   \<and> (\<forall>e s'. DDSketch_AddWithCount I s v c = Returns (Some e, s') \<longrightarrow> s' = s)
   \<and> (\<forall>s'. DDSketch_AddWithCount I s v c = Returns (None, s') \<longrightarrow>
         (if fgt v (MinIndexableValue I (IndexMapping s))
          then SparseStore_AddWithCount (Index I (IndexMapping s) v) c (store s) = Returns (store s')
               \<and> s' = s\<lparr>store := store s'\<rparr>
          else s' = s\<lparr>zeroCount := zeroCount s + c\<rparr>))
   \<and> (bins (store s) \<noteq> None \<longrightarrow> DDSketch_AddWithCount I s v c \<noteq> Panic)"
proof -
  have ret: "bins (store s) \<noteq> None \<longrightarrow> DDSketch_AddWithCount I s v c \<noteq> Panic"
  proof
    assume "bins (store s) \<noteq> None"
    then obtain st' where
      "SparseStore_AddWithCount (Index I (IndexMapping s) v) c (store s) = Returns st'"
      using SparseStore_AddWithCount_returns by blast
    then show "DDSketch_AddWithCount I s v c \<noteq> Panic"
      by (simp add: DDSketch_AddWithCount_def)
  qed
  show ?thesis
    using ret by (auto simp: DDSketch_AddWithCount_def split: exec.splits)
qed

theorem DDSketch_AddWithCount_spec_witness:
  "DDSketch_AddWithCount example_mapping (NewDDSketch () (SparseStore_Copy NewSparseStore)) (Fin 3) 2 =
     Returns (None, \<lparr>IndexMapping = (),
                     store = \<lparr>bins = Some [3 \<mapsto> 2], count = 2, minIndex = 3, maxIndex = 3\<rparr>,
                     zeroCount = 0\<rparr>)
   \<and> SparseStore_AddWithCount 3 2 (SparseStore_Copy NewSparseStore) =
       Returns \<lparr>bins = Some [3 \<mapsto> 2], count = 2, minIndex = 3, maxIndex = 3\<rparr>"
  using DDSketch_AddWithCount_spec [of example_mapping "NewDDSketch () (SparseStore_Copy NewSparseStore)" "Fin 3" 2]
  by (simp add: DDSketch_AddWithCount_def NewDDSketch_def SparseStore_Copy_def NewSparseStore_def
      SparseStore_AddWithCount_def example_mapping_def fgt_def sless_zero_iff Let_def map_get_def)

text \<open>
  C3 as stated fails at a NaN: the call succeeds, NaN is not \<open>\<le> MinIndexableValue()\<close>,
  and still the count goes to \<open>zeroCount\<close> and the store stays as it was, where adding
  to the store at \<open>Index(NaN)\<close> would have produced a bin.
\<close>

theorem DDSketch_AddWithCount_NaN_not_stored:
  "DDSketch_AddWithCount example_mapping (NewDDSketch () (SparseStore_Copy NewSparseStore)) NaN 1 =
     Returns (None, \<lparr>IndexMapping = (), store = SparseStore_Copy NewSparseStore, zeroCount = 1\<rparr>)
   \<and> \<not> fle NaN (MinIndexableValue example_mapping ())
   \<and> SparseStore_AddWithCount (Index example_mapping () NaN) 1 (SparseStore_Copy NewSparseStore) =
       Returns \<lparr>bins = Some [0 \<mapsto> 1], count = 1, minIndex = 0, maxIndex = 0\<rparr>"
  by (simp add: DDSketch_AddWithCount_def NewDDSketch_def SparseStore_Copy_def NewSparseStore_def
      SparseStore_AddWithCount_def example_mapping_def sless_zero_iff Let_def map_get_def)

section \<open>Copying a sketch\<close>

text \<open>
  C2. The copy of a sketch that holds one zero value has \<open>zeroCount\<close> 0 and count 0,
  while the original has count 1. The sketch is the one reached from a new sketch by
  \<open>Add(0)\<close>.
\<close>

theorem DDSketch_Copy_drops_zeroCount:
  "DDSketch_Add example_mapping (NewDDSketch () NewSparseStore) (Fin 0) =
     Returns (None, \<lparr>IndexMapping = (), store = NewSparseStore, zeroCount = 1\<rparr>)
   \<and> GetCount \<lparr>IndexMapping = (), store = NewSparseStore, zeroCount = 1\<rparr> = 1
   \<and> zeroCount (DDSketch_Copy \<lparr>IndexMapping = (), store = NewSparseStore, zeroCount = 1\<rparr>) = 0
   \<and> GetCount (DDSketch_Copy \<lparr>IndexMapping = (), store = NewSparseStore, zeroCount = 1\<rparr>) = 0"
  by (simp add: DDSketch_Add_def DDSketch_AddWithCount_def DDSketch_Copy_def GetCount_def
      NewDDSketch_def NewSparseStore_def SparseStore_Copy_def SparseStore_TotalCount_def
      example_mapping_def fgt_def sless_zero_iff)

section \<open>Quantile query\<close>

text \<open>
  C4. A NaN quantile is not rejected. The sketch below is reached from a sketch on
  \<open>NewSparseStore().Copy()\<close> by \<open>AddWithCount(3, 2)\<close>, so it is not empty. NaN is
  not in \<open>[0, 1]\<close>, but it passes the guard \<open>quantile < 0 || quantile > 1\<close>; the rank
  is NaN, which is not below \<open>zeroCount\<close>, and \<open>KeyAtRank(NaN)\<close> runs through all
  keys and gives \<open>maxIndex\<close>. The query returns the value of index 3 and a nil error.
\<close>

theorem GetValueAtQuantile_NaN_accepted:
  "DDSketch_AddWithCount example_mapping (NewDDSketch () (SparseStore_Copy NewSparseStore)) (Fin 3) 2 =
     Returns (None, \<lparr>IndexMapping = (),
                     store = \<lparr>bins = Some [3 \<mapsto> 2], count = 2, minIndex = 3, maxIndex = 3\<rparr>,
                     zeroCount = 0\<rparr>)
   \<and> GetCount
       \<lparr>IndexMapping = (),
        store = \<lparr>bins = Some [3 \<mapsto> 2], count = 2, minIndex = 3, maxIndex = 3\<rparr>,
        zeroCount = 0\<rparr> = 2
   \<and> \<not> (fge NaN (Fin 0) \<and> fle NaN (Fin 1))
   \<and> GetValueAtQuantile Fin example_mapping
       \<lparr>IndexMapping = (),
        store = \<lparr>bins = Some [3 \<mapsto> 2], count = 2, minIndex = 3, maxIndex = 3\<rparr>,
        zeroCount = 0\<rparr> NaN = (Fin 3, None)"
  by (simp add: DDSketch_AddWithCount_def NewDDSketch_def SparseStore_Copy_def
      NewSparseStore_def SparseStore_AddWithCount_def sless_zero_iff fgt_def Let_def
      GetValueAtQuantile_def GetCount_def SparseStore_TotalCount_def
      float64_of_int32_def SparseStore_KeyAtRank_def KeyAtRank_keys_def map_len_def
      map_keys_def map_get_def example_mapping_def fge_def)

text \<open>
  NaN is the only quantile at which the guard misses. For every other quantile the
  query returns an error exactly when the quantile is outside \<open>[0, 1]\<close> or
  \<open>GetCount()\<close> is 0, and without an error, with
  \<open>rank = q * float64(GetCount() - 1)\<close>, it returns 0 when \<open>rank < zeroCount\<close> and
  \<open>Value(store.KeyAtRank(rank - zeroCount))\<close> otherwise.
\<close>

lemma outside_unit_interval:
  "q \<noteq> NaN \<Longrightarrow> (flt q (Fin 0) \<or> fgt q (Fin 1)) \<longleftrightarrow> \<not> (fge q (Fin 0) \<and> fle q (Fin 1))"
  by (cases q) (auto simp: fgt_def fge_def fle_def)

lemma GetValueAtQuantile_unless_NaN:
  assumes "q \<noteq> NaN"
  shows "((snd (GetValueAtQuantile rnd I s q) \<noteq> None)
            \<longleftrightarrow> (\<not> (fge q (Fin 0) \<and> fle q (Fin 1)) \<or> GetCount s = 0))
         \<and> (snd (GetValueAtQuantile rnd I s q) = None \<longrightarrow>
              GetValueAtQuantile rnd I s q =
                (if flt (fmul rnd q (float64_of_int32 (GetCount s - 1))) (float64_of_int32 (zeroCount s))
                 then (Fin 0, None)
                 else (Value I (IndexMapping s)
                         (SparseStore_KeyAtRank (store s)
                            (fsub rnd (fmul rnd q (float64_of_int32 (GetCount s - 1)))
                               (float64_of_int32 (zeroCount s)))),
                       None)))"
  using outside_unit_interval [OF assms]
  by (simp add: GetValueAtQuantile_def Let_def)

lemma GetValueAtQuantile_median_example:
  "GetValueAtQuantile Fin example_mapping
     \<lparr>IndexMapping = (),
      store = \<lparr>bins = Some [3 \<mapsto> 2], count = 2, minIndex = 3, maxIndex = 3\<rparr>,
      zeroCount = 0\<rparr> (Fin (1 / 2)) = (Fin 3, None)"
  by (simp add: GetValueAtQuantile_def GetCount_def SparseStore_TotalCount_def fgt_def
      float64_of_int32_def SparseStore_KeyAtRank_def KeyAtRank_keys_def map_len_def
      map_keys_def map_get_def example_mapping_def)

section \<open>Merging\<close>

text \<open>
  With an allocated bins map in the receiver's store the merge loop does not panic, and
  the merge of two sketches with equal mappings returns no error and adds the counts.
\<close>

lemma MergeWith_loop_allocated:
  "\<exists>m'. MergeWith_loop ob (Some m) ks = Returns (Some m')"
  by (induction ks arbitrary: m) simp_all

lemma SparseStore_MergeWith_allocated:
  assumes "bins s \<noteq> None"
  shows "\<exists>st. SparseStore_MergeWith s other = Returns st \<and> count st = count s + count other"
proof (cases "SparseStore_IsEmpty other")
  case True
  then show ?thesis by (simp add: SparseStore_MergeWith_def SparseStore_IsEmpty_def)
next
  case False
  from assms obtain m where m: "bins s = Some m" by auto
  let ?s1 = "if minIndex other < minIndex s then s\<lparr>minIndex := minIndex other\<rparr> else s"
  let ?s2 = "if maxIndex other > maxIndex ?s1 then ?s1\<lparr>maxIndex := maxIndex other\<rparr> else ?s1"
  have b: "bins ?s2 = Some m" "count ?s2 = count s" using m by simp_all
  obtain m' where "MergeWith_loop (bins other) (Some m) (map_keys (bins other)) = Returns (Some m')"
    using MergeWith_loop_allocated by blast
  then show ?thesis
    using False b by (simp add: SparseStore_MergeWith_def Let_def)
qed

lemma DDSketch_MergeWith_conserves_count:
  assumes "Equals I (IndexMapping a) (IndexMapping b)" "bins (store a) \<noteq> None"
  shows "\<exists>a'. DDSketch_MergeWith I a b = Returns (None, a')
              \<and> GetCount a' = GetCount a + GetCount b"
proof -
  obtain st where "SparseStore_MergeWith (store a) (store b) = Returns st"
    "count st = count (store a) + count (store b)"
    using SparseStore_MergeWith_allocated [OF assms(2)] by blast
  then show ?thesis
    using assms(1) by (simp add: DDSketch_MergeWith_def GetCount_def SparseStore_TotalCount_def)
qed

text \<open>
  C5. Merging into a sketch built on \<open>NewSparseStore()\<close> does not succeed when the
  other sketch holds a bin. The other sketch here is reached from a sketch on
  \<open>NewSparseStore().Copy()\<close> by \<open>AddWithCount(3, 2)\<close>; the mappings are equal; the
  merge panics on the nil bins map of the receiver.
\<close>

theorem DDSketch_MergeWith_new_panics:
  "DDSketch_AddWithCount example_mapping (NewDDSketch () (SparseStore_Copy NewSparseStore)) (Fin 3) 2 =
     Returns (None, \<lparr>IndexMapping = (),
                     store = \<lparr>bins = Some [3 \<mapsto> 2], count = 2, minIndex = 3, maxIndex = 3\<rparr>,
                     zeroCount = 0\<rparr>)
   \<and> Equals example_mapping () ()
   \<and> DDSketch_MergeWith example_mapping (NewDDSketch () NewSparseStore)
       \<lparr>IndexMapping = (),
        store = \<lparr>bins = Some [3 \<mapsto> 2], count = 2, minIndex = 3, maxIndex = 3\<rparr>,
        zeroCount = 0\<rparr> = Panic"
  by (simp add: DDSketch_AddWithCount_def DDSketch_MergeWith_def NewDDSketch_def
      SparseStore_Copy_def NewSparseStore_def SparseStore_AddWithCount_def
      SparseStore_MergeWith_def SparseStore_IsEmpty_def example_mapping_def fgt_def
      sless_zero_iff Let_def map_get_def map_keys_def)

section \<open>Emptiness and count\<close>

lemma counts_ok_add_store:
  fixes z n c :: int32
  assumes "0 \<le> sint z" "0 \<le> sint n" "sint (z + n) = sint z + sint n"
    and "0 \<le> sint c" "sint (z + n + c) = sint (z + n) + sint c"
  shows "0 \<le> sint (n + c) \<and> sint (z + (n + c)) = sint z + sint (n + c)"
proof -
  have "sint z + sint n + sint c < 2147483648"
    using assms(3,5) sint_bound32 [of "z + n + c"] by simp
  then have nc: "sint (n + c) = sint n + sint c"
    using assms(1,2,4) by (intro sint_add_small) simp_all
  show ?thesis using nc assms by (simp add: add.assoc)
qed

lemma counts_ok_add_zero:
  fixes z n c :: int32
  assumes "0 \<le> sint z" "0 \<le> sint n" "sint (z + n) = sint z + sint n"
    and "0 \<le> sint c" "sint (z + n + c) = sint (z + n) + sint c"
  shows "0 \<le> sint (z + c) \<and> sint (z + c + n) = sint (z + c) + sint n"
  using counts_ok_add_store [of n z c] assms by (simp add: add.commute add.left_commute)

lemma SparseStore_AddWithCount_count:
  "SparseStore_AddWithCount i c st = Returns st' \<Longrightarrow> count st' = count st + c"
  by (auto simp: SparseStore_AddWithCount_def Let_def split: if_splits option.splits)

lemma SparseStore_MergeWith_count:
  "SparseStore_MergeWith st other = Returns st' \<Longrightarrow> count st' = count st + count other"
  by (auto simp: SparseStore_MergeWith_def SparseStore_IsEmpty_def Let_def
      split: if_splits exec.splits)

lemma counts_ok_AddWithCount:
  assumes "counts_ok s" "DDSketch_AddWithCount I s v c = Returns (None, s')"
    "no_overflow (GetCount s) c"
  shows "counts_ok s'"
proof -
  have c0: "0 \<le> sint c"
    using assms(2) by (auto simp: DDSketch_AddWithCount_def sless_zero_iff split: if_splits)
  let ?z = "zeroCount s" and ?n = "count (store s)"
  have inv: "0 \<le> sint ?z" "0 \<le> sint ?n" "sint (?z + ?n) = sint ?z + sint ?n"
    using assms(1) by (simp_all add: counts_ok_def GetCount_def SparseStore_TotalCount_def)
  have nov: "sint (?z + ?n + c) = sint (?z + ?n) + sint c"
    using assms(3) by (simp add: no_overflow_def GetCount_def SparseStore_TotalCount_def)
  show ?thesis
  proof (cases "fgt v (MinIndexableValue I (IndexMapping s))")
    case True
    then obtain st where st: "SparseStore_AddWithCount (Index I (IndexMapping s) v) c (store s) = Returns st"
      and s': "s' = s\<lparr>store := st\<rparr>"
      using assms(2) by (auto simp: DDSketch_AddWithCount_def split: if_splits exec.splits)
    have "count st = ?n + c" using st by (rule SparseStore_AddWithCount_count)
    then show ?thesis
      using counts_ok_add_store [OF inv c0 nov] inv s'
      by (simp add: counts_ok_def GetCount_def SparseStore_TotalCount_def)
  next
    case False
    then have s': "s' = s\<lparr>zeroCount := ?z + c\<rparr>"
      using assms(2) by (auto simp: DDSketch_AddWithCount_def split: if_splits)
    show ?thesis
      using counts_ok_add_zero [OF inv c0 nov] inv s'
      by (simp add: counts_ok_def GetCount_def SparseStore_TotalCount_def)
  qed
qed

lemma counts_ok_merge_arith:
  fixes z n z2 n2 :: int32
  assumes "0 \<le> sint z" "0 \<le> sint n" "sint (z + n) = sint z + sint n"
    and "0 \<le> sint z2" "0 \<le> sint n2" "sint (z2 + n2) = sint z2 + sint n2"
    and "sint ((z + n) + (z2 + n2)) = sint (z + n) + sint (z2 + n2)"
  shows "0 \<le> sint (z + z2) \<and> 0 \<le> sint (n + n2)
         \<and> sint ((z + z2) + (n + n2)) = sint (z + z2) + sint (n + n2)"
proof -
  have tot: "sint z + sint n + sint z2 + sint n2 < 2147483648"
    using assms(3,6,7) sint_bound32 [of "(z + n) + (z2 + n2)"] by simp
  have zz: "sint (z + z2) = sint z + sint z2"
    using assms(1,2,4,5) tot by (intro sint_add_small) simp_all
  have nn: "sint (n + n2) = sint n + sint n2"
    using assms(1,2,4,5) tot by (intro sint_add_small) simp_all
  have "(z + z2) + (n + n2) = (z + n) + (z2 + n2)" by simp
  then have "sint ((z + z2) + (n + n2)) = sint ((z + n) + (z2 + n2))" by (rule arg_cong)
  also have "\<dots> = sint (z + z2) + sint (n + n2)"
    using assms(3,6,7) zz nn by simp
  finally show ?thesis using zz nn assms(1,2,4,5) by simp
qed

lemma counts_ok_MergeWith:
  assumes "counts_ok s" "counts_ok other" "DDSketch_MergeWith I s other = Returns (None, s')"
    "no_overflow (GetCount s) (GetCount other)"
  shows "counts_ok s'"
proof -
  obtain st where st: "SparseStore_MergeWith (store s) (store other) = Returns st"
    and s': "s' = s\<lparr>store := st, zeroCount := zeroCount s + zeroCount other\<rparr>"
    using assms(3) by (auto simp: DDSketch_MergeWith_def split: if_splits exec.splits)
  have cnt: "count st = count (store s) + count (store other)"
    using st by (rule SparseStore_MergeWith_count)
  have "0 \<le> sint (zeroCount s + zeroCount other)
        \<and> 0 \<le> sint (count (store s) + count (store other))
        \<and> sint ((zeroCount s + zeroCount other) + (count (store s) + count (store other)))
            = sint (zeroCount s + zeroCount other) + sint (count (store s) + count (store other))"
    using assms(1,2,4)
    by (intro counts_ok_merge_arith)
       (simp_all add: counts_ok_def no_overflow_def GetCount_def SparseStore_TotalCount_def)
  then show ?thesis
    using s' cnt by (simp add: counts_ok_def GetCount_def SparseStore_TotalCount_def)
qed

lemma reachable_counts_ok: "reachable I s \<Longrightarrow> counts_ok s"
proof (induction rule: reachable.induct)
  case (reachable_new m)
  show ?case
    by (simp add: counts_ok_def NewDDSketch_def NewSparseStore_def GetCount_def
        SparseStore_TotalCount_def)
next
  case (reachable_new_copy m)
  show ?case
    by (simp add: counts_ok_def NewDDSketch_def NewSparseStore_def SparseStore_Copy_def
        GetCount_def SparseStore_TotalCount_def)
next
  case (reachable_Add s v s')
  then show ?case
    unfolding DDSketch_Add_def by (blast intro: counts_ok_AddWithCount)
next
  case (reachable_AddWithCount s v c s')
  then show ?case by (blast intro: counts_ok_AddWithCount)
next
  case (reachable_MergeWith s other s')
  then show ?case by (blast intro: counts_ok_MergeWith)
qed

lemma nonneg_sum_zero:
  fixes z n :: int32
  assumes "0 \<le> sint z" "0 \<le> sint n" "sint (z + n) = sint z + sint n"
  shows "z + n = 0 \<longleftrightarrow> z = 0 \<and> n = 0"
proof
  assume "z + n = 0"
  then have "sint z + sint n = 0" using assms(3) by simp
  then have "sint z = 0" "sint n = 0" using assms(1,2) by simp_all
  then show "z = 0 \<and> n = 0" by (simp add: signed_eq_0_iff)
qed simp

text \<open>
  C10. In every sketch reachable from a new one by successful \<open>Add\<close>,
  \<open>AddWithCount\<close> and \<open>MergeWith\<close> calls without overflow, \<open>IsEmpty()\<close> holds
  exactly when \<open>GetCount()\<close> is 0, and \<open>GetCount()\<close>, the sum of \<open>zeroCount\<close> and
  the store's total count, is non-negative.
\<close>

theorem reachable_IsEmpty_iff_GetCount_zero:
  "reachable I s \<Longrightarrow>
   (DDSketch_IsEmpty s \<longleftrightarrow> GetCount s = 0)
   \<and> GetCount s = zeroCount s + SparseStore_TotalCount (store s)
   \<and> 0 \<le> sint (GetCount s)"
proof -
  assume "reachable I s"
  then have ok: "counts_ok s" by (rule reachable_counts_ok)
  then have "zeroCount s + count (store s) = 0 \<longleftrightarrow> zeroCount s = 0 \<and> count (store s) = 0"
    by (intro nonneg_sum_zero) (simp_all add: counts_ok_def GetCount_def SparseStore_TotalCount_def)
  then show ?thesis
    using ok
    by (simp add: DDSketch_IsEmpty_def SparseStore_IsEmpty_def GetCount_def
        SparseStore_TotalCount_def counts_ok_def)
qed

theorem reachable_IsEmpty_iff_GetCount_zero_witness:
  "reachable example_mapping
     \<lparr>IndexMapping = (),
      store = \<lparr>bins = Some [3 \<mapsto> 2], count = 2, minIndex = 3, maxIndex = 3\<rparr>,
      zeroCount = 1\<rparr>
   \<and> \<not> DDSketch_IsEmpty
       \<lparr>IndexMapping = (),
        store = \<lparr>bins = Some [3 \<mapsto> 2], count = 2, minIndex = 3, maxIndex = 3\<rparr>,
        zeroCount = 1\<rparr>
   \<and> GetCount
       \<lparr>IndexMapping = (),
        store = \<lparr>bins = Some [3 \<mapsto> 2], count = 2, minIndex = 3, maxIndex = 3\<rparr>,
        zeroCount = 1\<rparr> = 3"
proof -
  let ?s0 = "NewDDSketch () (SparseStore_Copy NewSparseStore)"
  let ?st = "\<lparr>bins = Some [3 \<mapsto> (2 :: int32)], count = 2, minIndex = 3, maxIndex = 3\<rparr>"
  let ?s1 = "\<lparr>IndexMapping = (), store = ?st, zeroCount = 0\<rparr>"
  let ?s2 = "\<lparr>IndexMapping = (), store = ?st, zeroCount = 1\<rparr>"
  have r0: "reachable example_mapping ?s0" by (rule reachable_new_copy)
  have r1: "reachable example_mapping ?s1"
    by (rule reachable_AddWithCount [OF r0, of "Fin 3" 2])
       (simp_all add: DDSketch_AddWithCount_def NewDDSketch_def SparseStore_Copy_def
          NewSparseStore_def SparseStore_AddWithCount_def example_mapping_def fgt_def
          sless_zero_iff Let_def map_get_def no_overflow_def GetCount_def
          SparseStore_TotalCount_def)
  have r2: "reachable example_mapping ?s2"
    by (rule reachable_Add [OF r1, of "Fin 0"])
       (simp_all add: DDSketch_Add_def DDSketch_AddWithCount_def example_mapping_def fgt_def
          sless_zero_iff no_overflow_def GetCount_def SparseStore_TotalCount_def)
  show ?thesis
    using r2 reachable_IsEmpty_iff_GetCount_zero [OF r2]
    by (simp add: GetCount_def SparseStore_TotalCount_def)
qed

end
